theory Spec2Isabelle
  imports Complex_Main "HOL-Library.Char_ord" "HOL-Library.List_Lexorder" "HOL-Library.Multiset"
    "HOL-Library.Log_Nat"
begin

section \<open>JavaScript numbers\<close>

text \<open>
  The pipeline of \<^verbatim>\<open>src/app/utils/sqinchProcessor.ts\<close> computes on JavaScript numbers,
  the binary64 values of IEEE-754. \<open>Finite q\<close> is the number with the rational value
  \<open>q\<close>, \<open>Finite 0\<close> being \<^verbatim>\<open>+0\<close>; \<open>NegZero\<close> is \<^verbatim>\<open>-0\<close>; the others are \<^verbatim>\<open>Infinity\<close>,
  \<^verbatim>\<open>-Infinity\<close> and \<^verbatim>\<open>NaN\<close>. Every arithmetic operation rounds its exact result to
  binary64: to the nearest value, a tie going to the even significand, beyond the
  largest value to an infinity, and below the smallest to a subnormal or a zero.
\<close>

datatype jsnum = Finite rat | NegZero | PosInfinity | NegInfinity | NaN

definition pow2 :: "int \<Rightarrow> rat" where
  "pow2 e = (if 0 \<le> e then 2 ^ nat e else 1 / 2 ^ nat (- e))"

text \<open>The fraction \<open>a / b\<close> times \<open>2\<^sup>s\<close>, as numerator and denominator.\<close>

definition scaled :: "int \<Rightarrow> int \<Rightarrow> int \<Rightarrow> int \<times> int" where
  "scaled a b s = (if 0 \<le> s then (a * 2 ^ nat s, b) else (a, b * 2 ^ nat (- s)))"

text \<open>The exponent \<open>e\<close> of a positive fraction: \<open>2\<^sup>e \<le> a / b < 2\<^sup>e\<^sup>+\<^sup>1\<close>.\<close>

definition exponent_of :: "int \<Rightarrow> int \<Rightarrow> int" where
  "exponent_of a b =
     (let d = bitlen a - bitlen b; (n, m) = scaled a b (- d)
      in if m \<le> n then d else d - 1)"

text \<open>The integer nearest to \<open>n / m\<close>, the even one of two that are equally near.\<close>

definition nearest_even :: "int \<Rightarrow> int \<Rightarrow> int" where
  "nearest_even n m =
     (let f = n div m; r = 2 * (n mod m)
      in if r < m then f else if m < r then f + 1 else if even f then f else f + 1)"

text \<open>
  Rounding a positive rational: 53 significant bits from the exponent on, the exponent
  not below \<open>-1022\<close> (the subnormal range); \<open>2\<^sup>1\<^sup>0\<^sup>2\<^sup>4\<close> and more is \<^verbatim>\<open>Infinity\<close>.
\<close>

definition round_positive :: "rat \<Rightarrow> jsnum" where
  "round_positive q =
     (let (a, b) = quotient_of q;
          e = max (exponent_of a b) (- 1022);
          (n, m) = scaled a b (52 - e);
          k = nearest_even n m
      in if 1024 \<le> e \<or> (e = 1023 \<and> 9007199254740992 \<le> k) then PosInfinity
         else Finite (of_int k * pow2 (e - 52)))"

fun js_neg :: "jsnum \<Rightarrow> jsnum" where
  "js_neg (Finite q) = (if q = 0 then NegZero else Finite (- q))"
| "js_neg NegZero = Finite 0"
| "js_neg PosInfinity = NegInfinity"
| "js_neg NegInfinity = PosInfinity"
| "js_neg NaN = NaN"

definition round64 :: "rat \<Rightarrow> jsnum" where
  "round64 q =
     (if q = 0 then Finite 0
      else if 0 < q then round_positive q
      else js_neg (round_positive (- q)))"

fun is_zero :: "jsnum \<Rightarrow> bool" where
  "is_zero (Finite q) = (q = 0)"
| "is_zero NegZero = True"
| "is_zero x = False"

fun is_infinite :: "jsnum \<Rightarrow> bool" where
  "is_infinite PosInfinity = True"
| "is_infinite NegInfinity = True"
| "is_infinite x = False"

fun is_finite :: "jsnum \<Rightarrow> bool" where
  "is_finite (Finite q) = True"
| "is_finite NegZero = True"
| "is_finite x = False"

text \<open>The sign bit, and the rational a finite number stands for.\<close>

fun negative :: "jsnum \<Rightarrow> bool" where
  "negative (Finite q) = (q < 0)"
| "negative NegZero = True"
| "negative NegInfinity = True"
| "negative x = False"

fun value_of :: "jsnum \<Rightarrow> rat" where
  "value_of (Finite q) = q"
| "value_of x = 0"

definition signed_zero :: "bool \<Rightarrow> jsnum" where
  "signed_zero neg = (if neg then NegZero else Finite 0)"

definition signed_infinity :: "bool \<Rightarrow> jsnum" where
  "signed_infinity neg = (if neg then NegInfinity else PosInfinity)"

text \<open>
  \<^verbatim>\<open>x + y\<close>: two zeros give \<^verbatim>\<open>-0\<close> only when both are \<^verbatim>\<open>-0\<close>; an exact sum of 0
  is \<^verbatim>\<open>+0\<close>.
\<close>

definition js_add :: "jsnum \<Rightarrow> jsnum \<Rightarrow> jsnum" where
  "js_add x y =
     (if x = NaN \<or> y = NaN then NaN
      else if is_infinite x then (if is_infinite y \<and> y \<noteq> x then NaN else x)
      else if is_infinite y then y
      else if is_zero x \<and> is_zero y
           then (if x = NegZero \<and> y = NegZero then NegZero else Finite 0)
      else round64 (value_of x + value_of y))"

text \<open>\<^verbatim>\<open>x * y\<close> and \<^verbatim>\<open>x / y\<close>: the sign of the result is the product of the signs.\<close>

definition js_mul :: "jsnum \<Rightarrow> jsnum \<Rightarrow> jsnum" where
  "js_mul x y =
     (if x = NaN \<or> y = NaN then NaN
      else if (is_zero x \<and> is_infinite y) \<or> (is_infinite x \<and> is_zero y) then NaN
      else if is_infinite x \<or> is_infinite y then signed_infinity (negative x \<noteq> negative y)
      else if is_zero x \<or> is_zero y then signed_zero (negative x \<noteq> negative y)
      else round64 (value_of x * value_of y))"

definition js_div :: "jsnum \<Rightarrow> jsnum \<Rightarrow> jsnum" where
  "js_div x y =
     (if x = NaN \<or> y = NaN then NaN
      else if (is_zero x \<and> is_zero y) \<or> (is_infinite x \<and> is_infinite y) then NaN
      else if is_infinite x \<or> is_zero y then signed_infinity (negative x \<noteq> negative y)
      else if is_zero x \<or> is_infinite y then signed_zero (negative x \<noteq> negative y)
      else round64 (value_of x / value_of y))"

text \<open>
  \<^verbatim>\<open>a < b\<close>, \<^verbatim>\<open>a > b\<close> and \<^verbatim>\<open>a === b\<close> on numbers: every comparison with \<^verbatim>\<open>NaN\<close> is
  false, and the two zeros are equal.
\<close>

definition js_lt :: "jsnum \<Rightarrow> jsnum \<Rightarrow> bool" where
  "js_lt x y =
     (if x = NaN \<or> y = NaN then False
      else if x = PosInfinity \<or> y = NegInfinity then False
      else if x = NegInfinity \<or> y = PosInfinity then True
      else value_of x < value_of y)"

definition js_gt :: "jsnum \<Rightarrow> jsnum \<Rightarrow> bool" where
  "js_gt x y = js_lt y x"

definition js_strict_equal :: "jsnum \<Rightarrow> jsnum \<Rightarrow> bool" where
  "js_strict_equal x y =
     (if x = NaN \<or> y = NaN then False
      else if is_zero x \<and> is_zero y then True
      else x = y)"

text \<open>
  \<^verbatim>\<open>Math.round\<close>: the nearest integer, a tie going up; a negative number that rounds
  to 0 gives \<^verbatim>\<open>-0\<close>; the zeros and the special values are kept.
\<close>

fun Math_round :: "jsnum \<Rightarrow> jsnum" where
  "Math_round (Finite q) =
     (if \<lfloor>q + 1 / 2\<rfloor> = 0 \<and> q < 0 then NegZero else Finite (of_int \<lfloor>q + 1 / 2\<rfloor>))"
| "Math_round x = x"

text \<open>
  The name of a number as a property key, \<^verbatim>\<open>String(x)\<close>: different numbers have
  different names, but for the two zeros, which are both \<^verbatim>\<open>"0"\<close>. The key is
  represented by the number, \<^verbatim>\<open>-0\<close> by \<^verbatim>\<open>+0\<close>.
\<close>

fun property_key :: "jsnum \<Rightarrow> jsnum" where
  "property_key NegZero = Finite 0"
| "property_key x = x"

text \<open>
  What the code can throw. \<^verbatim>\<open>TypeError\<close> is the reading of a property of
  \<^verbatim>\<open>undefined\<close>; \<^verbatim>\<open>Error\<close> is any other instance of \<^verbatim>\<open>Error\<close>, with its message;
  \<^verbatim>\<open>Thrown\<close> is a thrown value that is not an \<^verbatim>\<open>Error\<close>.
\<close>

datatype js_exn = TypeError string | Error string | Thrown

fun map_exn :: "('a \<Rightarrow> js_exn + 'b) \<Rightarrow> 'a list \<Rightarrow> js_exn + 'b list" where
  "map_exn f [] = Inr []"
| "map_exn f (x # xs) =
     (case f x of
        Inl e \<Rightarrow> Inl e
      | Inr y \<Rightarrow> (case map_exn f xs of Inl e \<Rightarrow> Inl e | Inr ys \<Rightarrow> Inr (y # ys)))"

text \<open>\<^verbatim>\<open>xs[i]\<close>: an index out of range reads \<^verbatim>\<open>undefined\<close>, here \<open>None\<close>.\<close>

definition js_index :: "'a list \<Rightarrow> int \<Rightarrow> 'a option" where
  "js_index xs i = (if 0 \<le> i \<and> i < int (length xs) then Some (xs ! nat i) else None)"

section \<open>The lodash functions the pipeline calls\<close>

text \<open>
  \<^verbatim>\<open>_.sumBy\<close> is 0 on an empty array and otherwise adds from the first value on,
  rounding every partial sum; \<^verbatim>\<open>_.meanBy\<close> is \<^verbatim>\<open>NaN\<close> on an empty array and otherwise
  the sum divided by the length (an array length is below \<open>2\<^sup>3\<^sup>2\<close>, so it is a number
  as it stands).
\<close>

definition sumBy :: "('a \<Rightarrow> jsnum) \<Rightarrow> 'a list \<Rightarrow> jsnum" where
  "sumBy f xs =
     (case xs of [] \<Rightarrow> Finite 0 | x # rest \<Rightarrow> foldl (\<lambda>acc y. js_add acc (f y)) (f x) rest)"

definition meanBy :: "('a \<Rightarrow> jsnum) \<Rightarrow> 'a list \<Rightarrow> jsnum" where
  "meanBy f xs =
     (if xs = [] then NaN else js_div (sumBy f xs) (Finite (of_nat (length xs))))"

text \<open>
  \<^verbatim>\<open>_.uniqBy\<close> keeps, for every key, the first element that has it, in the order of
  the array.
\<close>

fun uniqBy_from :: "('a \<Rightarrow> 'k) \<Rightarrow> 'k list \<Rightarrow> 'a list \<Rightarrow> 'a list" where
  "uniqBy_from f seen [] = []"
| "uniqBy_from f seen (x # xs) =
     (if f x \<in> set seen then uniqBy_from f seen xs
      else x # uniqBy_from f (f x # seen) xs)"

definition uniqBy :: "('a \<Rightarrow> 'k) \<Rightarrow> 'a list \<Rightarrow> 'a list" where
  "uniqBy f xs = uniqBy_from f [] xs"

definition uniq :: "'a list \<Rightarrow> 'a list" where
  "uniq xs = uniqBy (\<lambda>x. x) xs"

text \<open>
  \<^verbatim>\<open>_.groupBy\<close> builds an object with one property per key, holding the elements with
  that key in their order. \<open>buckets\<close> lists the properties in the order of creation.
\<close>

definition buckets :: "('a \<Rightarrow> 'k) \<Rightarrow> 'a list \<Rightarrow> ('k \<times> 'a list) list" where
  "buckets f xs = map (\<lambda>k. (k, filter (\<lambda>x. f x = k) xs)) (uniq (map f xs))"

text \<open>
  \<^verbatim>\<open>_.map\<close> and \<^verbatim>\<open>_.forEach\<close> visit the properties of an object in the order of
  \<^verbatim>\<open>Object.keys\<close>: the keys that are array indices (the decimal numerals of
  \<open>0 \<dots> 2\<^sup>3\<^sup>2 - 2\<close> without leading zeros) first, ascending, then all other keys in
  the order of creation.
\<close>

definition is_digit :: "char \<Rightarrow> bool" where
  "is_digit c = (c \<in> set ''0123456789'')"

definition decimal_value :: "string \<Rightarrow> int" where
  "decimal_value s = foldl (\<lambda>n c. 10 * n + (of_char c - 48)) 0 s"

definition is_array_index :: "string \<Rightarrow> bool" where
  "is_array_index s =
     (s \<noteq> [] \<and> list_all is_digit s \<and> (s = ''0'' \<or> hd s \<noteq> CHR ''0'') \<and>
      decimal_value s < 4294967295)"

definition own_property_order :: "(string \<times> 'v) list \<Rightarrow> (string \<times> 'v) list" where
  "own_property_order kvs =
     sort_key (\<lambda>kv. decimal_value (fst kv)) (filter (\<lambda>kv. is_array_index (fst kv)) kvs) @
     filter (\<lambda>kv. \<not> is_array_index (fst kv)) kvs"

definition groupBy :: "('a \<Rightarrow> string) \<Rightarrow> 'a list \<Rightarrow> (string \<times> 'a list) list" where
  "groupBy f xs = own_property_order (buckets f xs)"

text \<open>
  \<^verbatim>\<open>_.orderBy(rows, key, 'desc')\<close> hands \<^verbatim>\<open>Array.prototype.sort\<close> the comparison
  of lodash: \<open>compareAscending\<close> on the keys, negated, and for equal keys the
  positions in the array. On numbers \<open>compareAscending\<close> puts \<^verbatim>\<open>NaN\<close> above every
  number, and answers 1 for two \<^verbatim>\<open>NaN\<close>s as well, whichever comes first. The sort is
  the insertion sort the engine runs on an array of fewer than 64 elements: every
  element in turn goes before the first element of the sorted part that it precedes.
  With at most one \<^verbatim>\<open>NaN\<close> key the comparison is a total order and every sort returns
  this list; several rows with a \<^verbatim>\<open>NaN\<close> key come out first, in reverse order.
\<close>

definition compareAscending :: "jsnum \<Rightarrow> jsnum \<Rightarrow> int" where
  "compareAscending v other =
     (if \<not> js_strict_equal v other then
        (if js_gt v other \<or> v = NaN then 1
         else if js_lt v other \<or> other = NaN then - 1
         else 0)
      else 0)"

fun insert_by :: "('a \<Rightarrow> 'a \<Rightarrow> int) \<Rightarrow> 'a \<Rightarrow> 'a list \<Rightarrow> 'a list" where
  "insert_by cmp x [] = [x]"
| "insert_by cmp x (y # ys) =
     (if cmp x y < 0 then x # y # ys else y # insert_by cmp x ys)"

definition orderBy_desc :: "('a \<Rightarrow> jsnum) \<Rightarrow> 'a list \<Rightarrow> 'a list" where
  "orderBy_desc key xs =
     foldl (\<lambda>sorted x. insert_by (\<lambda>a b. - compareAscending (key a) (key b)) x sorted) [] xs"

text \<open>
  \<^verbatim>\<open>_.maxBy\<close>: the first element whose key is not \<^verbatim>\<open>NaN\<close> starts, and a later
  element replaces it when its key is greater; \<^verbatim>\<open>undefined\<close> on an empty array.
\<close>

fun maxBy_from :: "('a \<Rightarrow> jsnum) \<Rightarrow> 'a option \<Rightarrow> 'a list \<Rightarrow> 'a option" where
  "maxBy_from key best [] = best"
| "maxBy_from key None (x # xs) =
     maxBy_from key (if key x \<noteq> NaN then Some x else None) xs"
| "maxBy_from key (Some b) (x # xs) =
     maxBy_from key (if js_gt (key x) (key b) then Some x else Some b) xs"

definition maxBy :: "('a \<Rightarrow> jsnum) \<Rightarrow> 'a list \<Rightarrow> 'a option" where
  "maxBy key xs = maxBy_from key None xs"

section \<open>The records of the pipeline\<close>

record ProductRecord =
  Product_Name :: string
  Product_Sales_Revenue :: jsnum
  Units_Sold :: jsnum
  Square_Inches :: jsnum
  Page_Number :: jsnum
  Catalog_Price :: jsnum

record EnrichedProduct = ProductRecord +
  revenuePerSqIn :: jsnum
  spaceEfficiencyIndex :: jsnum
  catalogAvgRevenuePerSqIn :: jsnum
  pageAvgRevenuePerSqIn :: jsnum
  pagePositionRatio :: jsnum

section \<open>Product metrics\<close>

definition calculateProductMetrics :: "ProductRecord list \<Rightarrow> EnrichedProduct list" where
  "calculateProductMetrics productData =
     (let totalRevenue = sumBy Product_Sales_Revenue productData;
          totalSquareInches = sumBy Square_Inches productData;
          catalogAvg = js_div totalRevenue totalSquareInches
      in map (\<lambda>product.
            let rpsi = js_div (Product_Sales_Revenue product) (Square_Inches product);
                sei = js_mul (js_div rpsi catalogAvg) (Finite 100)
            in ProductRecord.extend product
                 (EnrichedProduct.fields rpsi sei catalogAvg (Finite 0) (Finite 0)))
           productData)"

text \<open>
  The page groups are keyed by the name of the page number; they are only read back by
  key, so the order of the keys is not observed.
\<close>

record PageMetric =
  pm_pageAvgRevenuePerSqIn :: jsnum
  pm_productCount :: nat

definition calculatePageMetrics :: "EnrichedProduct list \<Rightarrow> js_exn + EnrichedProduct list" where
  "calculatePageMetrics enrichedProducts =
     (let pageGroups = buckets (\<lambda>product. property_key (Page_Number product)) enrichedProducts;
          pageMetrics = map (\<lambda>(page, productsOnPage).
             (page,
              \<lparr> pm_pageAvgRevenuePerSqIn =
                   js_div (sumBy Product_Sales_Revenue productsOnPage)
                          (sumBy Square_Inches productsOnPage),
                 pm_productCount = length productsOnPage \<rparr>)) pageGroups
      in map_exn (\<lambda>product.
            case map_of pageMetrics (property_key (Page_Number product)) of
              None \<Rightarrow> Inl (TypeError ''Cannot read properties of undefined'')
            | Some m \<Rightarrow> Inr (product
                \<lparr> pageAvgRevenuePerSqIn := pm_pageAvgRevenuePerSqIn m,
                   pagePositionRatio := js_div (revenuePerSqIn product) (pm_pageAvgRevenuePerSqIn m) \<rparr>))
           enrichedProducts)"

section \<open>Customer records and the three customer analyses\<close>

record CustomerRecord =
  Customer_Email :: string
  Product_Name :: string
  Units_Purchased :: jsnum
  Revenue_Generated :: jsnum
  Age_Range :: string
  Income_Tier :: string
  Location :: string

record SegmentAnalysis =
  segment :: string
  customers :: nat
  totalRevenue :: jsnum
  weightedAvgSEI :: jsnum
  spaceConsumed :: jsnum
  revenuePerSqIn :: jsnum

record AffinityAnalysis =
  anchorProduct :: string
  anchorSEI :: jsnum
  boughtWithProduct :: string
  boughtWithSEI :: jsnum
  coPurchases :: nat
  combinedEfficiency :: jsnum

record CustomerProfile =
  customerEmail :: string
  ageRange :: string
  incomeTier :: string
  productsBought :: nat
  totalSpent :: jsnum
  avgSEI :: jsnum
  revenueWeightedSEI :: jsnum

text \<open>\<^verbatim>\<open>productMetrics.find(p => p['Product Name'] === name)\<close>\<close>

definition find_product :: "EnrichedProduct list \<Rightarrow> string \<Rightarrow> EnrichedProduct option" where
  "find_product productMetrics name =
     find (\<lambda>p. ProductRecord.Product_Name p = name) productMetrics"

text \<open>\<^verbatim>\<open>Math.round(x * 10) / 10\<close> and \<^verbatim>\<open>Math.round(x * 100) / 100\<close>\<close>

definition round1 :: "jsnum \<Rightarrow> jsnum" where
  "round1 x = js_div (Math_round (js_mul x (Finite 10))) (Finite 10)"

definition round2 :: "jsnum \<Rightarrow> jsnum" where
  "round2 x = js_div (Math_round (js_mul x (Finite 100))) (Finite 100)"

subsection \<open>Segments\<close>

text \<open>
  The objects the segment analysis builds on the way: the customer record with the
  matched product's index and area, then with the segment label.
\<close>

record SegmentJoined = CustomerRecord +
  spaceEfficiencyIndex :: jsnum
  Square_Inches :: jsnum

record SegmentedRecord = SegmentJoined +
  segment :: string

definition segment_join :: "EnrichedProduct list \<Rightarrow> CustomerRecord \<Rightarrow> SegmentJoined option" where
  "segment_join productMetrics customerRecord =
     (case find_product productMetrics (CustomerRecord.Product_Name customerRecord) of
        None \<Rightarrow> None
      | Some productMatch \<Rightarrow>
          Some (CustomerRecord.extend customerRecord
                  (SegmentJoined.fields (EnrichedProduct.spaceEfficiencyIndex productMatch)
                                        (ProductRecord.Square_Inches productMatch))))"

definition segment_row :: "string \<times> SegmentedRecord list \<Rightarrow> SegmentAnalysis" where
  "segment_row entry =
     (let records = snd entry;
          uniqueCustomers = length (uniqBy Customer_Email records);
          totalRevenue = sumBy Revenue_Generated records;
          totalSpaceConsumed =
            sumBy (\<lambda>record. js_mul (Units_Purchased record) (SegmentJoined.Square_Inches record))
              records;
          weightedSEI =
            js_div (sumBy (\<lambda>record. js_mul (Revenue_Generated record)
                                        (SegmentJoined.spaceEfficiencyIndex record)) records)
                   totalRevenue
      in \<lparr> SegmentAnalysis.segment = fst entry,
           customers = uniqueCustomers,
           totalRevenue = totalRevenue,
           weightedAvgSEI = round1 weightedSEI,
           spaceConsumed = totalSpaceConsumed,
           SegmentAnalysis.revenuePerSqIn = round2 (js_div totalRevenue totalSpaceConsumed) \<rparr>)"

definition generateSegmentAnalysis ::
  "CustomerRecord list \<Rightarrow> EnrichedProduct list \<Rightarrow> SegmentAnalysis list" where
  "generateSegmentAnalysis customerData productMetrics =
     (let customerProductJoined = List.map_filter (segment_join productMetrics) customerData;
          segmentedData = map (\<lambda>record. SegmentJoined.extend record
             (SegmentedRecord.fields (Income_Tier record @ '' Income '' @ Location record)))
             customerProductJoined;
          segmentGroups = groupBy SegmentedRecord.segment segmentedData;
          segmentAnalysis = map segment_row segmentGroups
      in orderBy_desc SegmentAnalysis.revenuePerSqIn segmentAnalysis)"

subsection \<open>Affinity\<close>

record CoPurchase =
  customer :: string
  product1 :: string
  product2 :: string

text \<open>
  The two nested loops over one customer's purchases: every row \<open>i\<close> with every later
  row \<open>j\<close>, in this order.
\<close>

fun customer_pairs :: "string \<Rightarrow> CustomerRecord list \<Rightarrow> CoPurchase list" where
  "customer_pairs email [] = []"
| "customer_pairs email (purchase # later) =
     map (\<lambda>other. \<lparr> customer = email,
                      product1 = CustomerRecord.Product_Name purchase,
                      product2 = CustomerRecord.Product_Name other \<rparr>) later
     @ customer_pairs email later"

definition collect_coPurchases :: "CustomerRecord list \<Rightarrow> CoPurchase list" where
  "collect_coPurchases customerData =
     concat (map (\<lambda>(email, purchases).
                    if length purchases > 1 then customer_pairs email purchases else [])
                 (groupBy Customer_Email customerData))"

text \<open>\<^verbatim>\<open>parts.join(sep)\<close> and \<^verbatim>\<open>text.split(sep)\<close> for a separator that is not empty.\<close>

fun join :: "string \<Rightarrow> string list \<Rightarrow> string" where
  "join sep [] = []"
| "join sep [x] = x"
| "join sep (x # y # ys) = x @ sep @ join sep (y # ys)"

function split_from :: "string \<Rightarrow> string \<Rightarrow> string \<Rightarrow> string list" where
  "split_from sep current s =
     (if s = [] then [rev current]
      else if sep \<noteq> [] \<and> take (length sep) s = sep
           then rev current # split_from sep [] (drop (length sep) s)
      else split_from sep (hd s # current) (tl s))"
  by pat_completeness auto
termination
  by (relation "measure (\<lambda>(sep, current, s). length s)") auto

declare split_from.simps [simp del]

definition split :: "string \<Rightarrow> string \<Rightarrow> string list" where
  "split sep s = split_from sep [] s"

definition separator :: string where
  "separator = '' + ''"

text \<open>
  \<^verbatim>\<open>[product1, product2].sort().join(' + ')\<close>: the default sort compares strings by
  their code units, here the lexicographic order of the characters' codes.
\<close>

definition pair_key :: "CoPurchase \<Rightarrow> string" where
  "pair_key record = join separator (sort [product1 record, product2 record])"

definition affinity_row ::
  "EnrichedProduct list \<Rightarrow> string \<times> CoPurchase list \<Rightarrow> AffinityAnalysis option" where
  "affinity_row productMetrics entry =
     (let parts = split separator (fst entry);
          p1 = js_index parts 0;
          p2 = js_index parts 1;
          product1Metrics = (case p1 of None \<Rightarrow> None | Some n \<Rightarrow> find_product productMetrics n);
          product2Metrics = (case p2 of None \<Rightarrow> None | Some n \<Rightarrow> find_product productMetrics n)
      in case (p1, p2, product1Metrics, product2Metrics) of
           (Some n1, Some n2, Some m1, Some m2) \<Rightarrow>
             Some \<lparr> anchorProduct = n1,
                    anchorSEI = round1 (EnrichedProduct.spaceEfficiencyIndex m1),
                    boughtWithProduct = n2,
                    boughtWithSEI = round1 (EnrichedProduct.spaceEfficiencyIndex m2),
                    coPurchases = length (snd entry),
                    combinedEfficiency =
                      round1 (js_div (js_add (EnrichedProduct.spaceEfficiencyIndex m1)
                                             (EnrichedProduct.spaceEfficiencyIndex m2))
                                     (Finite 2)) \<rparr>
         | _ \<Rightarrow> None)"

definition generateAffinityAnalysis ::
  "CustomerRecord list \<Rightarrow> EnrichedProduct list \<Rightarrow> AffinityAnalysis list" where
  "generateAffinityAnalysis customerData productMetrics =
     (let pairs = collect_coPurchases customerData;
          affinityGroups = groupBy pair_key pairs;
          affinityAnalysis = List.map_filter (affinity_row productMetrics) affinityGroups
      in orderBy_desc combinedEfficiency affinityAnalysis)"

subsection \<open>Customer profiles\<close>

record ProfileJoined = CustomerRecord +
  spaceEfficiencyIndex :: jsnum

definition profile_join :: "EnrichedProduct list \<Rightarrow> CustomerRecord \<Rightarrow> ProfileJoined option" where
  "profile_join productMetrics record =
     (case find_product productMetrics (CustomerRecord.Product_Name record) of
        None \<Rightarrow> None
      | Some productMatch \<Rightarrow>
          Some (CustomerRecord.extend record
                  (ProfileJoined.fields (EnrichedProduct.spaceEfficiencyIndex productMatch))))"

definition profile_row :: "string \<times> ProfileJoined list \<Rightarrow> js_exn + CustomerProfile" where
  "profile_row entry =
     (let purchases = snd entry;
          spent = sumBy Revenue_Generated purchases;
          productsCount = length purchases;
          mean = meanBy ProfileJoined.spaceEfficiencyIndex purchases;
          weighted =
            js_div (sumBy (\<lambda>purchase. js_mul (Revenue_Generated purchase)
                                          (ProfileJoined.spaceEfficiencyIndex purchase)) purchases)
                   spent
      in case js_index purchases 0 of
           None \<Rightarrow> Inl (TypeError ''Cannot read properties of undefined'')
         | Some customerInfo \<Rightarrow>
             Inr \<lparr> customerEmail = fst entry,
                   ageRange = Age_Range customerInfo,
                   incomeTier = Income_Tier customerInfo,
                   productsBought = productsCount,
                   totalSpent = spent,
                   avgSEI = round1 mean,
                   revenueWeightedSEI = round1 weighted \<rparr>)"

definition generateCustomerProfiles ::
  "CustomerRecord list \<Rightarrow> EnrichedProduct list \<Rightarrow> js_exn + CustomerProfile list" where
  "generateCustomerProfiles customerData productMetrics =
     (let enrichedCustomerData = List.map_filter (profile_join productMetrics) customerData;
          customerGroups = groupBy Customer_Email enrichedCustomerData
      in case map_exn profile_row customerGroups of
           Inl e \<Rightarrow> Inl e
         | Inr customerProfiles \<Rightarrow> Inr (orderBy_desc revenueWeightedSEI customerProfiles))"

section \<open>Insight summaries and the entry point\<close>

record SegmentInsights =
  topSegment :: "SegmentAnalysis option"
  bottomSegment :: "SegmentAnalysis option"
  highestEfficiencySegment :: "SegmentAnalysis option"
  totalSegments :: nat

record AffinityInsights =
  topAffinity :: "AffinityAnalysis option"
  totalAffinityPairs :: nat
  highEfficiencyPairs :: nat

record CustomerInsights =
  topCustomer :: "CustomerProfile option"
  avgCustomerSEI :: jsnum
  multiProductCustomers :: nat
  totalCustomers :: nat

record InsightSummaries =
  segmentInsights :: SegmentInsights
  affinityInsights :: AffinityInsights
  customerInsights :: CustomerInsights

definition generateInsightSummaries ::
  "SegmentAnalysis list \<Rightarrow> AffinityAnalysis list \<Rightarrow> CustomerProfile list \<Rightarrow> InsightSummaries" where
  "generateInsightSummaries segmentAnalysis affinityAnalysis customerProfiles =
     \<lparr> segmentInsights =
         \<lparr> topSegment = js_index segmentAnalysis 0,
           bottomSegment = js_index segmentAnalysis (int (length segmentAnalysis) - 1),
           highestEfficiencySegment = maxBy weightedAvgSEI segmentAnalysis,
           totalSegments = length segmentAnalysis \<rparr>,
       affinityInsights =
         \<lparr> topAffinity = js_index affinityAnalysis 0,
           totalAffinityPairs = length affinityAnalysis,
           highEfficiencyPairs =
             length (filter (\<lambda>pair. js_gt (combinedEfficiency pair) (Finite 150)) affinityAnalysis) \<rparr>,
       customerInsights =
         \<lparr> topCustomer = js_index customerProfiles 0,
           avgCustomerSEI = meanBy avgSEI customerProfiles,
           multiProductCustomers = length (filter (\<lambda>c. productsBought c > 1) customerProfiles),
           totalCustomers = length customerProfiles \<rparr> \<rparr>"

record AnalysisData =
  productMetrics :: "EnrichedProduct list"
  segmentAnalysis :: "SegmentAnalysis list"
  affinityAnalysis :: "AffinityAnalysis list"
  customerProfiles :: "CustomerProfile list"
  insightSummaries :: InsightSummaries

record ProcessingResults =
  success :: bool
  data :: "AnalysisData option"
  error :: "string option"

text \<open>
  \<^verbatim>\<open>loadDatasets\<close> hands both texts to the CSV parser of the papaparse library. The
  parser is a parameter here: a function from the text to the rows it yields, or to
  what it throws.
\<close>

definition loadDatasets ::
  "(string \<Rightarrow> js_exn + ProductRecord list) \<Rightarrow> (string \<Rightarrow> js_exn + CustomerRecord list) \<Rightarrow>
   string \<Rightarrow> string \<Rightarrow> js_exn + (ProductRecord list \<times> CustomerRecord list)" where
  "loadDatasets parseProducts parseCustomers productFile customerFile =
     (case parseProducts productFile of
        Inl e \<Rightarrow> Inl e
      | Inr productData \<Rightarrow>
          (case parseCustomers customerFile of
             Inl e \<Rightarrow> Inl e
           | Inr customerData \<Rightarrow> Inr (productData, customerData)))"

text \<open>The body of the \<^verbatim>\<open>try\<close> block, from the parsed rows on.\<close>

definition analyse :: "ProductRecord list \<Rightarrow> CustomerRecord list \<Rightarrow> js_exn + AnalysisData" where
  "analyse productData customerData =
     (let metrics = calculateProductMetrics productData
      in case calculatePageMetrics metrics of
           Inl e \<Rightarrow> Inl e
         | Inr enrichedProducts \<Rightarrow>
             (let segments = generateSegmentAnalysis customerData enrichedProducts;
                  affinities = generateAffinityAnalysis customerData enrichedProducts
              in case generateCustomerProfiles customerData enrichedProducts of
                   Inl e \<Rightarrow> Inl e
                 | Inr profiles \<Rightarrow>
                     Inr \<lparr> productMetrics = enrichedProducts,
                           segmentAnalysis = segments,
                           affinityAnalysis = affinities,
                           customerProfiles = profiles,
                           insightSummaries =
                             generateInsightSummaries segments affinities profiles \<rparr>))"

text \<open>\<^verbatim>\<open>error instanceof Error ? error.message : 'Unknown error occurred'\<close>\<close>

fun error_message :: "js_exn \<Rightarrow> string" where
  "error_message (TypeError m) = m"
| "error_message (Error m) = m"
| "error_message Thrown = ''Unknown error occurred''"

definition processFullAnalysis ::
  "(string \<Rightarrow> js_exn + ProductRecord list) \<Rightarrow> (string \<Rightarrow> js_exn + CustomerRecord list) \<Rightarrow>
   string \<Rightarrow> string \<Rightarrow> ProcessingResults" where
  "processFullAnalysis parseProducts parseCustomers productFile customerFile =
     (case loadDatasets parseProducts parseCustomers productFile customerFile of
        Inl e \<Rightarrow> \<lparr> success = False, data = None, error = Some (error_message e) \<rparr>
      | Inr (productData, customerData) \<Rightarrow>
          (case analyse productData customerData of
             Inl e \<Rightarrow> \<lparr> success = False, data = None, error = Some (error_message e) \<rparr>
           | Inr results \<Rightarrow> \<lparr> success = True, data = Some results, error = None \<rparr>))"

section \<open>Notions used to state the properties\<close>

text \<open>The average \<^verbatim>\<open>calculatePageMetrics\<close> stores for a page: over the products on it.\<close>

definition page_average :: "EnrichedProduct list \<Rightarrow> jsnum \<Rightarrow> jsnum" where
  "page_average products page =
     js_div (sumBy Product_Sales_Revenue
               (filter (\<lambda>p. property_key (Page_Number p) = page) products))
            (sumBy ProductRecord.Square_Inches
               (filter (\<lambda>p. property_key (Page_Number p) = page) products))"

text \<open>A product name without the character \<^verbatim>\<open>+\<close> of the pair separator.\<close>

definition plus_free :: "string \<Rightarrow> bool" where
  "plus_free name = (CHR ''+'' \<notin> set name)"



text \<open>The two names of an affinity row, in the row's order.\<close>

definition pair_names :: "AffinityAnalysis \<Rightarrow> string \<times> string" where
  "pair_names row = (anchorProduct row, boughtWithProduct row)"




section \<open>Example inputs\<close>

text \<open>A parser that yields the given rows, whatever the text.\<close>

definition parsed_as :: "'a list \<Rightarrow> string \<Rightarrow> js_exn + 'a list" where
  "parsed_as rows text = Inr rows"

text \<open>A product with revenue 1000 on 10 square inches, as enriched in a catalog of its own.\<close>

definition lamp :: ProductRecord where
  "lamp = \<lparr> ProductRecord.Product_Name = ''Lamp'', Product_Sales_Revenue = Finite 1000,
            Units_Sold = Finite 20, ProductRecord.Square_Inches = Finite 10,
            Page_Number = Finite 1, Catalog_Price = Finite 50 \<rparr>"

definition enriched_lamp :: EnrichedProduct where
  "enriched_lamp = ProductRecord.extend lamp
     (EnrichedProduct.fields (Finite 100) (Finite 100) (Finite 100) (Finite 100) (Finite 1))"

text \<open>A product that takes no area.\<close>

definition sticker :: ProductRecord where
  "sticker = \<lparr> ProductRecord.Product_Name = ''Sticker'', Product_Sales_Revenue = Finite 5,
               Units_Sold = Finite 5, ProductRecord.Square_Inches = Finite 0,
               Page_Number = Finite 2, Catalog_Price = Finite 1 \<rparr>"

text \<open>A purchase row: customer, product name, units and revenue; the rest is fixed.\<close>

definition purchase :: "string \<Rightarrow> string \<Rightarrow> rat \<Rightarrow> rat \<Rightarrow> CustomerRecord" where
  "purchase email name units revenue =
     \<lparr> Customer_Email = email, CustomerRecord.Product_Name = name,
       Units_Purchased = Finite units, Revenue_Generated = Finite revenue,
       Age_Range = ''25-34'', Income_Tier = ''High'', Location = ''Urban'' \<rparr>"

text \<open>A catalog entry with the given name and index; the other fields are those of the lamp.\<close>

definition catalog_entry :: "string \<Rightarrow> rat \<Rightarrow> EnrichedProduct" where
  "catalog_entry name sei =
     enriched_lamp \<lparr> ProductRecord.Product_Name := name,
                     EnrichedProduct.spaceEfficiencyIndex := Finite sei \<rparr>"

section \<open>Facts about the library functions\<close>

lemma keys_uniqBy_from: "f ` set (uniqBy_from f seen xs) = f ` set xs - set seen"
  by (induction xs arbitrary: seen) auto

lemma distinct_uniqBy_from: "distinct (map f (uniqBy_from f seen xs))"
proof (induction xs arbitrary: seen)
  case Nil
  show ?case by simp
next
  case (Cons x xs)
  have "f x \<notin> f ` set (uniqBy_from f (f x # seen) xs)"
    by (simp add: keys_uniqBy_from)
  with Cons show ?case by simp
qed

lemma set_uniq: "set (uniq xs) = set xs"
  using keys_uniqBy_from [of "\<lambda>x. x" "[]" xs] by (simp add: uniq_def uniqBy_def)

lemma distinct_uniq: "distinct (uniq xs)"
  using distinct_uniqBy_from [of "\<lambda>x. x" "[]" xs] by (simp add: uniq_def uniqBy_def)

lemma keys_buckets: "map fst (buckets f xs) = uniq (map f xs)"
  by (simp add: buckets_def comp_def)

lemma buckets_member:
  "(k, g) \<in> set (buckets f xs) \<longleftrightarrow> k \<in> f ` set xs \<and> g = filter (\<lambda>x. f x = k) xs"
  by (auto simp: buckets_def set_uniq)

lemma set_own_property_order: "set (own_property_order kvs) = set kvs"
  by (auto simp: own_property_order_def)

lemma distinct_own_property_order:
  "distinct (map fst kvs) \<Longrightarrow> distinct (map fst (own_property_order kvs))"
  by (auto simp: own_property_order_def distinct_map inj_on_def)

lemma groupBy_member:
  "(k, g) \<in> set (groupBy f xs) \<longleftrightarrow> k \<in> f ` set xs \<and> g = filter (\<lambda>x. f x = k) xs"
  by (simp add: groupBy_def set_own_property_order buckets_member)

lemma distinct_keys_groupBy: "distinct (map fst (groupBy f xs))"
  by (simp add: groupBy_def distinct_own_property_order keys_buckets distinct_uniq)

lemma set_insert_by: "set (insert_by cmp x ys) = insert x (set ys)"
  by (induction ys) auto

lemma set_foldl_insert_by:
  "set (foldl (\<lambda>sorted x. insert_by cmp x sorted) start xs) = set start \<union> set xs"
  by (induction xs arbitrary: start) (auto simp: set_insert_by)

lemma set_orderBy_desc: "set (orderBy_desc key xs) = set xs"
  by (simp add: orderBy_desc_def set_foldl_insert_by)

lemma length_insert_by: "length (insert_by cmp x ys) = Suc (length ys)"
  by (induction ys) auto

lemma map_exn_total:
  "(\<And>x. x \<in> set xs \<Longrightarrow> f x = Inr (g x)) \<Longrightarrow> map_exn f xs = Inr (map g xs)"
  by (induction xs) simp_all

section \<open>Facts about sums, product metrics and page metrics\<close>

lemma sumBy_single: "sumBy f [x] = f x"
  by (simp add: sumBy_def)

lemma product_metrics_nth:
  assumes "i < length productData"
  shows "calculateProductMetrics productData ! i =
     ProductRecord.extend (productData ! i)
       (EnrichedProduct.fields
          (js_div (Product_Sales_Revenue (productData ! i)) (ProductRecord.Square_Inches (productData ! i)))
          (js_mul (js_div (js_div (Product_Sales_Revenue (productData ! i)) (ProductRecord.Square_Inches (productData ! i)))
                          (js_div (sumBy Product_Sales_Revenue productData) (sumBy ProductRecord.Square_Inches productData)))
                  (Finite 100))
          (js_div (sumBy Product_Sales_Revenue productData) (sumBy ProductRecord.Square_Inches productData))
          (Finite 0) (Finite 0))"
  using assms by (simp add: calculateProductMetrics_def Let_def)

lemma length_product_metrics: "length (calculateProductMetrics productData) = length productData"
  by (simp add: calculateProductMetrics_def Let_def)

lemma extend_selectors:
  "ProductRecord.Product_Name (ProductRecord.extend p (EnrichedProduct.fields a b c d e)) = ProductRecord.Product_Name p"
  "Product_Sales_Revenue (ProductRecord.extend p (EnrichedProduct.fields a b c d e)) = Product_Sales_Revenue p"
  "ProductRecord.Square_Inches (ProductRecord.extend p (EnrichedProduct.fields a b c d e)) = ProductRecord.Square_Inches p"
  "Page_Number (ProductRecord.extend p (EnrichedProduct.fields a b c d e)) = Page_Number p"
  "EnrichedProduct.revenuePerSqIn (ProductRecord.extend p (EnrichedProduct.fields a b c d e)) = a"
  "EnrichedProduct.spaceEfficiencyIndex (ProductRecord.extend p (EnrichedProduct.fields a b c d e)) = b"
  "catalogAvgRevenuePerSqIn (ProductRecord.extend p (EnrichedProduct.fields a b c d e)) = c"
  "pageAvgRevenuePerSqIn (ProductRecord.extend p (EnrichedProduct.fields a b c d e)) = d"
  "pagePositionRatio (ProductRecord.extend p (EnrichedProduct.fields a b c d e)) = e"
  "ProductRecord.truncate (ProductRecord.extend p (EnrichedProduct.fields a b c d e)) = p"
  by (simp_all add: ProductRecord.extend_def EnrichedProduct.fields_def ProductRecord.truncate_def)

lemma page_metrics_rows:
  "calculatePageMetrics products =
     Inr (map (\<lambda>p. p \<lparr> pageAvgRevenuePerSqIn :=
                         page_average products (property_key (Page_Number p)),
                       pagePositionRatio :=
                         js_div (EnrichedProduct.revenuePerSqIn p)
                                (page_average products (property_key (Page_Number p))) \<rparr>)
            products)"
proof -
  let ?key = "\<lambda>p. property_key (Page_Number p)"
  let ?metric = "\<lambda>page. \<lparr> pm_pageAvgRevenuePerSqIn = page_average products page,
      pm_productCount = length (filter (\<lambda>p. ?key p = page) products) \<rparr>"
  have table: "map (\<lambda>(page, productsOnPage).
             (page,
              \<lparr> pm_pageAvgRevenuePerSqIn =
                   js_div (sumBy Product_Sales_Revenue productsOnPage)
                          (sumBy ProductRecord.Square_Inches productsOnPage),
                 pm_productCount = length productsOnPage \<rparr>)) (buckets ?key products)
        = map (\<lambda>page. (page, ?metric page)) (uniq (map ?key products))"
    by (simp add: buckets_def page_average_def comp_def)
  have look: "map_of (map (\<lambda>page. (page, ?metric page)) (uniq (map ?key products)))
        (?key p) = Some (?metric (?key p))" if "p \<in> set products" for p
    using that by (simp add: map_of_map_restrict set_uniq)
  show ?thesis
    unfolding calculatePageMetrics_def Let_def table
    by (rule map_exn_total) (simp add: look)
qed

lemma filter_alone:
  assumes "i < length xs"
      and "\<forall>j < length xs. j \<noteq> i \<longrightarrow> f (xs ! j) \<noteq> f (xs ! i)"
  shows "filter (\<lambda>x. f x = f (xs ! i)) xs = [xs ! i]"
proof -
  have split: "xs = take i xs @ xs ! i # drop (Suc i) xs"
    using assms(1) by (simp add: id_take_nth_drop)
  have before: "filter (\<lambda>x. f x = f (xs ! i)) (take i xs) = []"
  proof -
    have "f x \<noteq> f (xs ! i)" if "x \<in> set (take i xs)" for x
    proof -
      from that obtain j where "j < length (take i xs)" "take i xs ! j = x"
        by (auto simp: in_set_conv_nth)
      with assms show ?thesis by auto
    qed
    then show ?thesis by (simp add: filter_empty_conv)
  qed
  have after: "filter (\<lambda>x. f x = f (xs ! i)) (drop (Suc i) xs) = []"
  proof -
    have "f x \<noteq> f (xs ! i)" if "x \<in> set (drop (Suc i) xs)" for x
    proof -
      from that obtain j where j: "j < length (drop (Suc i) xs)" "drop (Suc i) xs ! j = x"
        by (auto simp: in_set_conv_nth)
      then have "Suc i + j < length xs" "xs ! (Suc i + j) = x" by auto
      with assms(2) show ?thesis by (metis Suc_n_not_le_n le_add1 plus_nat.simps(2))
    qed
    then show ?thesis by (simp add: filter_empty_conv)
  qed
  have "filter (\<lambda>x. f x = f (xs ! i)) xs =
        filter (\<lambda>x. f x = f (xs ! i)) (take i xs @ xs ! i # drop (Suc i) xs)"
    using split by simp
  also have "\<dots> = [xs ! i]" using before after by simp
  finally show ?thesis .
qed

lemma round64_one: "round64 1 = Finite 1"
  by code_simp

lemma js_div_self:
  "js_div x x = (if is_finite x \<and> \<not> is_zero x then Finite 1 else NaN)"
  by (cases x) (auto simp: js_div_def round64_one)

lemma page_average_alone:
  assumes "i < length productData"
      and "\<forall>j < length productData. j \<noteq> i \<longrightarrow>
             property_key (Page_Number (productData ! j)) \<noteq>
             property_key (Page_Number (productData ! i))"
  shows "page_average (calculateProductMetrics productData)
           (property_key (Page_Number (productData ! i))) =
         js_div (Product_Sales_Revenue (productData ! i)) (ProductRecord.Square_Inches (productData ! i))"
proof -
  let ?rows = "calculateProductMetrics productData"
  let ?key = "\<lambda>p. property_key (Page_Number p)"
  have len: "i < length ?rows" using assms(1) by (simp add: length_product_metrics)
  have page: "Page_Number (?rows ! j) = Page_Number (productData ! j)" if "j < length productData" for j
    using that by (simp add: product_metrics_nth extend_selectors)
  have "\<forall>j < length ?rows. j \<noteq> i \<longrightarrow> ?key (?rows ! j) \<noteq> ?key (?rows ! i)"
    using assms page by (simp add: length_product_metrics)
  from filter_alone [of i ?rows ?key, OF len this]
  have "filter (\<lambda>p. ?key p = property_key (Page_Number (productData ! i))) ?rows = [?rows ! i]"
    using page [OF assms(1)] by simp
  then show ?thesis
    using assms(1) by (simp add: page_average_def sumBy_single product_metrics_nth extend_selectors)
qed

section \<open>The pipeline returns\<close>

lemma groupBy_Nil: "groupBy f [] = []"
  by (simp add: groupBy_def buckets_def uniq_def uniqBy_def own_property_order_def)

lemma orderBy_desc_Nil: "orderBy_desc key [] = []"
  by (simp add: orderBy_desc_def)

lemma map_filter_all_None: "(\<And>x. x \<in> set xs \<Longrightarrow> f x = None) \<Longrightarrow> List.map_filter f xs = []"
  by (induction xs) (simp_all add: List.map_filter_simps)

lemma groupBy_nonempty: "(k, g) \<in> set (groupBy f xs) \<Longrightarrow> g \<noteq> []"
  by (auto simp: groupBy_member filter_empty_conv)

lemma js_index_first: "xs \<noteq> [] \<Longrightarrow> js_index xs 0 = Some (hd xs)"
  by (cases xs) (simp_all add: js_index_def)

lemma map_exn_Inr:
  "(\<And>x. x \<in> set xs \<Longrightarrow> \<exists>y. f x = Inr y) \<Longrightarrow>
   \<exists>ys. map_exn f xs = Inr ys \<and> length ys = length xs \<and> (\<forall>i < length xs. f (xs ! i) = Inr (ys ! i))"
proof (induction xs)
  case Nil
  show ?case by simp
next
  case (Cons x xs)
  from Cons.prems obtain y where y: "f x = Inr y" by auto
  from Cons obtain ys where ys: "map_exn f xs = Inr ys" "length ys = length xs"
      "\<forall>i < length xs. f (xs ! i) = Inr (ys ! i)"
    by auto
  have "\<forall>i < length (x # xs). f ((x # xs) ! i) = Inr ((y # ys) ! i)"
    using y ys(3) by (auto simp: nth_Cons split: nat.splits)
  with y ys show ?case by simp
qed

lemma profile_row_Inr: "snd entry \<noteq> [] \<Longrightarrow> \<exists>profile. profile_row entry = Inr profile"
  by (simp add: profile_row_def Let_def js_index_first)

lemma profiles_total:
  "\<exists>profiles. generateCustomerProfiles customerData metrics = Inr profiles"
proof -
  let ?groups = "groupBy Customer_Email (List.map_filter (profile_join metrics) customerData)"
  have "\<exists>y. profile_row entry = Inr y" if "entry \<in> set ?groups" for entry
    using that groupBy_nonempty [of "fst entry" "snd entry"] by (intro profile_row_Inr) simp
  from map_exn_Inr [of ?groups profile_row, OF this]
  obtain rows where "map_exn profile_row ?groups = Inr rows" by blast
  then show ?thesis by (simp add: generateCustomerProfiles_def Let_def)
qed

lemma analyse_total: "\<exists>results. analyse productData customerData = Inr results \<and>
    productMetrics results = map (\<lambda>p. p \<lparr> pageAvgRevenuePerSqIn := page_average (calculateProductMetrics productData) (property_key (Page_Number p)),
                       pagePositionRatio :=
                         js_div (EnrichedProduct.revenuePerSqIn p)
                                (page_average (calculateProductMetrics productData) (property_key (Page_Number p))) \<rparr>) (calculateProductMetrics productData) \<and>
    segmentAnalysis results = generateSegmentAnalysis customerData (productMetrics results) \<and>
    affinityAnalysis results = generateAffinityAnalysis customerData (productMetrics results) \<and>
    generateCustomerProfiles customerData (productMetrics results) = Inr (customerProfiles results) \<and>
    insightSummaries results = generateInsightSummaries (segmentAnalysis results) (affinityAnalysis results) (customerProfiles results)"
proof -
  let ?rows = "map (\<lambda>p. p \<lparr> pageAvgRevenuePerSqIn := page_average (calculateProductMetrics productData) (property_key (Page_Number p)),
                       pagePositionRatio :=
                         js_div (EnrichedProduct.revenuePerSqIn p)
                                (page_average (calculateProductMetrics productData) (property_key (Page_Number p))) \<rparr>) (calculateProductMetrics productData)"
  obtain profiles where "generateCustomerProfiles customerData ?rows = Inr profiles"
    using profiles_total by blast
  then show ?thesis
    by (simp add: analyse_def Let_def page_metrics_rows)
qed

lemma find_product_Nil: "find_product [] name = None"
  by (simp add: find_product_def)

lemma segments_without_products: "generateSegmentAnalysis customerData [] = []"
  by (simp add: generateSegmentAnalysis_def Let_def segment_join_def find_product_Nil
      map_filter_all_None groupBy_Nil orderBy_desc_Nil)

lemma affinity_row_without_products: "affinity_row [] entry = None"
  by (simp add: affinity_row_def Let_def find_product_Nil split: option.splits)

lemma affinities_without_products: "generateAffinityAnalysis customerData [] = []"
  by (simp add: generateAffinityAnalysis_def Let_def affinity_row_without_products
      map_filter_all_None orderBy_desc_Nil)

lemma profiles_without_products: "generateCustomerProfiles customerData [] = Inr []"
  by (simp add: generateCustomerProfiles_def Let_def profile_join_def find_product_Nil
      map_filter_all_None groupBy_Nil orderBy_desc_Nil)

lemma js_div_zero_not_finite: "is_zero z \<Longrightarrow> \<not> is_finite (js_div x z)"
  by (cases x; cases z) (auto simp: js_div_def signed_infinity_def)



lemma catalog_average_of_row:
  "row \<in> set (calculateProductMetrics productData) \<Longrightarrow>
   catalogAvgRevenuePerSqIn row =
     js_div (sumBy Product_Sales_Revenue productData) (sumBy ProductRecord.Square_Inches productData)"
  by (auto simp: calculateProductMetrics_def Let_def extend_selectors)

section \<open>Facts about the affinity analysis\<close>

lemma customer_of_pairs: "c \<in> set (customer_pairs email purchases) \<Longrightarrow> customer c = email"
  by (induction purchases) auto

lemma length_customer_pairs: "length (customer_pairs email purchases) = length purchases choose 2"
  by (induction purchases) (simp_all add: numeral_2_eq_2)

lemma map_of_groupBy:
  "map_of (groupBy f xs) k =
     (if k \<in> f ` set xs then Some (filter (\<lambda>x. f x = k) xs) else None)"
proof (cases "k \<in> f ` set xs")
  case True
  then have "(k, filter (\<lambda>x. f x = k) xs) \<in> set (groupBy f xs)" by (simp add: groupBy_member)
  with True show ?thesis by (simp add: distinct_keys_groupBy)
next
  case False
  then have "k \<notin> fst ` set (groupBy f xs)" by (force simp: groupBy_member)
  with False show ?thesis by (simp add: map_of_eq_None_iff)
qed

lemma length_filter_concat_by_key:
  assumes "distinct (map fst kvs)"
      and "\<And>kv x. kv \<in> set kvs \<Longrightarrow> x \<in> set (h kv) \<Longrightarrow> tag x = fst kv"
  shows "length (filter (\<lambda>x. tag x = k) (concat (map h kvs))) =
         (case map_of kvs k of None \<Rightarrow> 0 | Some v \<Rightarrow> length (h (k, v)))"
  using assms
proof (induction kvs)
  case Nil
  show ?case by simp
next
  case (Cons kv kvs)
  have rest: "length (filter (\<lambda>x. tag x = k) (concat (map h kvs))) =
         (case map_of kvs k of None \<Rightarrow> 0 | Some v \<Rightarrow> length (h (k, v)))"
    using Cons by simp
  have tags: "\<And>x. x \<in> set (h kv) \<Longrightarrow> tag x = fst kv" using Cons.prems(2) by simp
  show ?case
  proof (cases "fst kv = k")
    case True
    then have "map_of kvs k = None" using Cons.prems(1) by (simp add: map_of_eq_None_iff)
    moreover have "filter (\<lambda>x. tag x = k) (h kv) = h kv" using tags True by (simp add: filter_id_conv)
    ultimately show ?thesis using rest True by (cases kv) simp
  next
    case False
    then have "filter (\<lambda>x. tag x = k) (h kv) = []" using tags by (auto simp: filter_empty_conv)
    with rest False show ?thesis by (cases kv) simp
  qed
qed

lemma split_from_plus_free:
  "plus_free b \<Longrightarrow> split_from separator current b = [rev current @ b]"
proof (induction b arbitrary: current)
  case Nil
  show ?case by (subst split_from.simps) simp
next
  case (Cons c b)
  from Cons.prems have b: "plus_free b" and c: "c \<noteq> CHR ''+''" by (auto simp: plus_free_def)
  have "take (length separator) (c # b) \<noteq> separator"
  proof (cases b)
    case Nil
    then show ?thesis by (simp add: separator_def)
  next
    case (Cons d rest)
    with b have "d \<noteq> CHR ''+''" by (auto simp: plus_free_def)
    with Cons show ?thesis by (simp add: separator_def)
  qed
  then have "split_from separator current (c # b) = split_from separator (c # current) b"
    by (subst split_from.simps) simp
  with Cons.IH [OF b] show ?case by simp
qed

lemma split_from_joined:
  "plus_free a \<Longrightarrow>
   split_from separator current (a @ separator @ rest) =
     (rev current @ a) # split_from separator [] rest"
proof (induction a arbitrary: current)
  case Nil
  show ?case by (subst split_from.simps) (simp add: separator_def)
next
  case (Cons c a)
  from Cons.prems have a: "plus_free a" and c: "c \<noteq> CHR ''+''" by (auto simp: plus_free_def)
  have "take (length separator) (c # a @ separator @ rest) \<noteq> separator"
  proof (cases a)
    case Nil
    then show ?thesis by (simp add: separator_def)
  next
    case (Cons d more)
    with a have "d \<noteq> CHR ''+''" by (auto simp: plus_free_def)
    with Cons show ?thesis by (simp add: separator_def)
  qed
  then have "split_from separator current ((c # a) @ separator @ rest) =
      split_from separator (c # current) (a @ separator @ rest)"
    by (subst split_from.simps) simp
  with Cons.IH [OF a] show ?case by simp
qed

lemma split_join_pair:
  "plus_free a \<Longrightarrow> plus_free b \<Longrightarrow> split separator (join separator [a, b]) = [a, b]"
  by (simp add: split_def split_from_joined split_from_plus_free)

lemma split_pair_key:
  "plus_free (product1 c) \<Longrightarrow> plus_free (product2 c) \<Longrightarrow>
   split separator (pair_key c) = sort [product1 c, product2 c]"
  by (simp add: pair_key_def split_join_pair del: join.simps)

lemma pair_key_sorted:
  "pair_key c = min (product1 c) (product2 c) @ separator @ max (product1 c) (product2 c)"
  by (simp add: pair_key_def min_def max_def)

lemma affinity_row_Some:
  assumes "plus_free (product1 c)" and "plus_free (product2 c)"
      and "affinity_row metrics (pair_key c, g) = Some row"
  shows "anchorProduct row = min (product1 c) (product2 c) \<and>
         boughtWithProduct row = max (product1 c) (product2 c) \<and>
         coPurchases row = length g \<and>
         find_product metrics (product1 c) \<noteq> None \<and>
         find_product metrics (product2 c) \<noteq> None"
proof -
  have parts: "split separator (pair_key c) = [min (product1 c) (product2 c), max (product1 c) (product2 c)]"
    using assms(1,2) by (simp add: split_pair_key min_def max_def)
  from assms(3) have found:
      "find_product metrics (min (product1 c) (product2 c)) \<noteq> None \<and>
       find_product metrics (max (product1 c) (product2 c)) \<noteq> None"
    and names: "anchorProduct row = min (product1 c) (product2 c) \<and>
         boughtWithProduct row = max (product1 c) (product2 c) \<and>
         coPurchases row = length g"
    by (auto simp: affinity_row_def Let_def parts js_index_def split: option.splits)
  from found have "find_product metrics (product1 c) \<noteq> None \<and>
      find_product metrics (product2 c) \<noteq> None"
    by (cases "product1 c \<le> product2 c") (simp_all add: min_def max_def)
  with names show ?thesis by simp
qed


lemma set_map_filter: "set (List.map_filter f xs) = {y. \<exists>x \<in> set xs. f x = Some y}"
  by (induction xs) (auto simp: List.map_filter_simps split: option.splits)

lemma affinity_rows_member:
  "row \<in> set (generateAffinityAnalysis customerData metrics) \<longleftrightarrow>
   (\<exists>entry \<in> set (groupBy pair_key (collect_coPurchases customerData)).
      affinity_row metrics entry = Some row)"
  by (simp add: generateAffinityAnalysis_def Let_def set_orderBy_desc set_map_filter)

lemma names_of_pairs:
  "c \<in> set (customer_pairs email purchases) \<Longrightarrow>
   product1 c \<in> CustomerRecord.Product_Name ` set purchases \<and>
   product2 c \<in> CustomerRecord.Product_Name ` set purchases"
  by (induction purchases) auto

lemma distinct_names_of_pairs:
  "distinct (map CustomerRecord.Product_Name purchases) \<Longrightarrow>
   c \<in> set (customer_pairs email purchases) \<Longrightarrow> product1 c \<noteq> product2 c"
  by (induction purchases) (auto dest: names_of_pairs)

lemma collect_member:
  "c \<in> set (collect_coPurchases customerData) \<Longrightarrow>
   c \<in> set (customer_pairs (customer c)
              (filter (\<lambda>r. Customer_Email r = customer c) customerData))"
proof -
  assume "c \<in> set (collect_coPurchases customerData)"
  then obtain email g where entry: "(email, g) \<in> set (groupBy Customer_Email customerData)"
      and c: "c \<in> set (customer_pairs email g)"
    by (auto simp: collect_coPurchases_def split: if_splits)
  from c have "customer c = email" by (rule customer_of_pairs)
  with entry c show ?thesis by (simp add: groupBy_member)
qed

lemma collect_names:
  assumes "c \<in> set (collect_coPurchases customerData)"
  shows "product1 c \<in> CustomerRecord.Product_Name ` set customerData \<and>
         product2 c \<in> CustomerRecord.Product_Name ` set customerData"
  using names_of_pairs [OF collect_member [OF assms]] by auto

lemma collect_plus_free:
  assumes "list_all (\<lambda>r. plus_free (CustomerRecord.Product_Name r)) customerData"
      and "c \<in> set (collect_coPurchases customerData)"
  shows "plus_free (product1 c) \<and> plus_free (product2 c)"
  using collect_names [OF assms(2)] assms(1) by (auto simp: list_all_iff)

lemma distinct_names_per_customer:
  assumes "distinct (map (\<lambda>r. (Customer_Email r, CustomerRecord.Product_Name r)) customerData)"
  shows "distinct (map CustomerRecord.Product_Name
           (filter (\<lambda>r. Customer_Email r = email) customerData))"
proof -
  from assms have d: "distinct customerData"
    and inj: "inj_on (\<lambda>r. (Customer_Email r, CustomerRecord.Product_Name r)) (set customerData)"
    by (simp_all add: distinct_map)
  have "inj_on CustomerRecord.Product_Name (set (filter (\<lambda>r. Customer_Email r = email) customerData))"
    using inj by (auto simp: inj_on_def)
  with d show ?thesis by (simp add: distinct_map)
qed

lemma affinity_example:
  "generateAffinityAnalysis
     [purchase ''ann@example.com'' ''Rug'' 1 80, purchase ''ann@example.com'' ''Lamp'' 1 50]
     [catalog_entry ''Lamp'' 120, catalog_entry ''Rug'' 80] =
   [\<lparr> anchorProduct = ''Lamp'', anchorSEI = Finite 120, boughtWithProduct = ''Rug'',
       boughtWithSEI = Finite 80, coPurchases = 1, combinedEfficiency = Finite 100 \<rparr>]"
  by code_simp

lemma pair_key_commute:
  "pair_key \<lparr> customer = e1, product1 = a, product2 = b \<rparr> =
   pair_key \<lparr> customer = e2, product1 = b, product2 = a \<rparr>"
  using linear [of a b] by (auto simp: pair_key_def)

lemma key_of_affinity_row:
  assumes "list_all (\<lambda>r. plus_free (CustomerRecord.Product_Name r)) customerData"
      and "entry \<in> set (groupBy pair_key (collect_coPurchases customerData))"
      and "affinity_row metrics entry = Some row"
  shows "fst entry = anchorProduct row @ separator @ boughtWithProduct row \<and>
         anchorProduct row \<le> boughtWithProduct row"
proof -
  obtain k g where kg: "entry = (k, g)" by (cases entry)
  with assms(2) obtain c where c: "c \<in> set (collect_coPurchases customerData)"
      and k: "k = pair_key c"
    by (auto simp: groupBy_member)
  have free: "plus_free (product1 c)" "plus_free (product2 c)"
    using collect_plus_free [OF assms(1) c] by simp_all
  have "anchorProduct row = min (product1 c) (product2 c)"
      "boughtWithProduct row = max (product1 c) (product2 c)"
    using affinity_row_Some [OF free assms(3) [unfolded kg k]] by simp_all
  moreover have "min (product1 c) (product2 c) \<le> max (product1 c) (product2 c)"
    by (simp add: min_le_iff_disj)
  ultimately show ?thesis by (simp add: kg k pair_key_sorted)
qed

lemma distinct_map_filter_by_key:
  assumes "distinct (map fst kvs)"
      and "\<And>kv y. kv \<in> set kvs \<Longrightarrow> f kv = Some y \<Longrightarrow> fst kv = key y"
  shows "distinct (map key (List.map_filter f kvs))"
  using assms
proof (induction kvs)
  case Nil
  show ?case by (simp add: List.map_filter_simps)
next
  case (Cons kv kvs)
  have rest: "distinct (map key (List.map_filter f kvs))" using Cons by simp
  show ?case
  proof (cases "f kv")
    case None
    with rest show ?thesis by (simp add: List.map_filter_simps)
  next
    case (Some y)
    have "key y \<notin> key ` set (List.map_filter f kvs)"
    proof
      assume "key y \<in> key ` set (List.map_filter f kvs)"
      then obtain kv' y' where "kv' \<in> set kvs" "f kv' = Some y'" "key y' = key y"
        by (auto simp: set_map_filter)
      with Cons.prems(2) [of kv' y'] Cons.prems(2) [of kv y] Some have "fst kv' = fst kv" by simp
      moreover have "fst kv \<notin> fst ` set kvs" using Cons.prems(1) by simp
      ultimately show False using \<open>kv' \<in> set kvs\<close> by (metis imageI)
    qed
    with rest Some show ?thesis by (simp add: List.map_filter_simps)
  qed
qed

lemma distinct_map_insert_by:
  "distinct (map h (insert_by cmp x ys)) = distinct (map h (x # ys))"
  by (induction ys) (auto simp: set_insert_by)

lemma distinct_map_foldl_insert_by:
  "distinct (map h (foldl (\<lambda>sorted x. insert_by cmp x sorted) start xs)) =
   distinct (map h (start @ xs))"
proof (induction xs arbitrary: start)
  case Nil
  show ?case by simp
next
  case (Cons x xs)
  have "distinct (map h (insert_by cmp x start @ xs)) = distinct (map h (start @ x # xs))"
    using distinct_map_insert_by [of h cmp x start] by (auto simp: set_insert_by)
  with Cons show ?case by simp
qed

lemma distinct_map_orderBy_desc:
  "distinct (map h (orderBy_desc key xs)) = distinct (map h xs)"
  by (simp add: orderBy_desc_def distinct_map_foldl_insert_by)

lemma affinity_rows_distinct:
  assumes "list_all (\<lambda>r. plus_free (CustomerRecord.Product_Name r)) customerData"
  shows "distinct (map pair_names (generateAffinityAnalysis customerData metrics))"
proof -
  let ?groups = "groupBy pair_key (collect_coPurchases customerData)"
  let ?key = "\<lambda>row. fst (pair_names row) @ separator @ snd (pair_names row)"
  have "distinct (map ?key (List.map_filter (affinity_row metrics) ?groups))"
    by (rule distinct_map_filter_by_key)
       (use key_of_affinity_row [OF assms] in \<open>simp_all add: distinct_keys_groupBy pair_names_def\<close>)
  then have "distinct (map ?key (generateAffinityAnalysis customerData metrics))"
    by (simp add: generateAffinityAnalysis_def Let_def distinct_map_orderBy_desc)
  then have "distinct (generateAffinityAnalysis customerData metrics) \<and>
      inj_on ?key (set (generateAffinityAnalysis customerData metrics))"
    by (simp add: distinct_map)
  then show ?thesis by (auto simp: distinct_map inj_on_def)
qed

lemma affinity_rows_sorted:
  assumes "list_all (\<lambda>r. plus_free (CustomerRecord.Product_Name r)) customerData"
      and "row \<in> set (generateAffinityAnalysis customerData metrics)"
  shows "anchorProduct row \<le> boughtWithProduct row"
  using assms(2) key_of_affinity_row [OF assms(1)] by (auto simp: affinity_rows_member)

text \<open>
  Without the character \<^verbatim>\<open>+\<close> in the product names, two different rows of the affinity
  output never hold the same two names, neither in the same order nor swapped.
\<close>

lemma affinity_rows_unique_up_to_order:
  assumes "list_all (\<lambda>r. plus_free (CustomerRecord.Product_Name r)) customerData"
      and "i < length (generateAffinityAnalysis customerData metrics)"
      and "j < length (generateAffinityAnalysis customerData metrics)"
      and "i \<noteq> j"
  shows "pair_key \<lparr> customer = e1, product1 = a, product2 = b \<rparr> =
           join separator (sort [a, b]) \<and>
         pair_key \<lparr> customer = e1, product1 = a, product2 = b \<rparr> =
           pair_key \<lparr> customer = e2, product1 = b, product2 = a \<rparr> \<and>
         pair_names (generateAffinityAnalysis customerData metrics ! i) \<noteq>
           pair_names (generateAffinityAnalysis customerData metrics ! j) \<and>
         pair_names (generateAffinityAnalysis customerData metrics ! i) \<noteq>
           (boughtWithProduct (generateAffinityAnalysis customerData metrics ! j),
            anchorProduct (generateAffinityAnalysis customerData metrics ! j))"
proof -
  let ?rows = "generateAffinityAnalysis customerData metrics"
  have different: "pair_names (?rows ! i) \<noteq> pair_names (?rows ! j)"
    using affinity_rows_distinct [OF assms(1), of metrics] assms(2-4)
    by (simp add: distinct_conv_nth)
  have sorted_i: "anchorProduct (?rows ! i) \<le> boughtWithProduct (?rows ! i)"
    using affinity_rows_sorted [OF assms(1) nth_mem [OF assms(2)]] .
  have sorted_j: "anchorProduct (?rows ! j) \<le> boughtWithProduct (?rows ! j)"
    using affinity_rows_sorted [OF assms(1) nth_mem [OF assms(3)]] .
  have "pair_names (?rows ! i) \<noteq> (boughtWithProduct (?rows ! j), anchorProduct (?rows ! j))"
  proof
    assume swapped: "pair_names (?rows ! i) = (boughtWithProduct (?rows ! j), anchorProduct (?rows ! j))"
    then have "anchorProduct (?rows ! i) = boughtWithProduct (?rows ! j)"
        "boughtWithProduct (?rows ! i) = anchorProduct (?rows ! j)"
      by (simp_all add: pair_names_def)
    with sorted_i sorted_j have "anchorProduct (?rows ! j) = boughtWithProduct (?rows ! j)"
      by simp
    with swapped have "pair_names (?rows ! i) = pair_names (?rows ! j)"
      by (simp add: pair_names_def)
    with different show False by simp
  qed
  with different show ?thesis
    using pair_key_commute [of e1 a b e2] by (simp add: pair_key_def)
qed

section \<open>Customer rows without a product are left out\<close>


















section \<open>Customer profiles\<close>




















section \<open>The insight summary of empty tables\<close>

text \<open>
  Claim C10. \<^verbatim>\<open>generateInsightSummaries\<close> returns a summary for empty tables too:
  with an empty segment table the top, bottom and highest-efficiency segments are
  absent and the count is 0; with an empty affinity table the top pair is absent and
  both counts are 0; with an empty profile table the top customer is absent, both
  counts are 0 and the mean index is \<^verbatim>\<open>NaN\<close>.
\<close>

theorem insights_on_empty_tables:
  "segmentInsights (generateInsightSummaries [] affinities profiles) =
     \<lparr> topSegment = None, bottomSegment = None, highestEfficiencySegment = None,
       totalSegments = 0 \<rparr> \<and>
   affinityInsights (generateInsightSummaries segments [] profiles) =
     \<lparr> topAffinity = None, totalAffinityPairs = 0, highEfficiencyPairs = 0 \<rparr> \<and>
   customerInsights (generateInsightSummaries segments affinities []) =
     \<lparr> topCustomer = None, avgCustomerSEI = NaN, multiProductCustomers = 0,
       totalCustomers = 0 \<rparr>"
  by (simp add: generateInsightSummaries_def js_index_def maxBy_def meanBy_def)

theorem insights_on_empty_tables_witness:
  "generateInsightSummaries [] [] [] =
     \<lparr> segmentInsights =
         \<lparr> topSegment = None, bottomSegment = None, highestEfficiencySegment = None,
           totalSegments = 0 \<rparr>,
       affinityInsights =
         \<lparr> topAffinity = None, totalAffinityPairs = 0, highEfficiencyPairs = 0 \<rparr>,
       customerInsights =
         \<lparr> topCustomer = None, avgCustomerSEI = NaN, multiProductCustomers = 0,
           totalCustomers = 0 \<rparr> \<rparr>"
  using insights_on_empty_tables [of "[]" "[]" "[]"]
  by (cases "generateInsightSummaries [] [] []") simp

section \<open>Product metrics\<close>

text \<open>
  Claim C2. \<^verbatim>\<open>calculateProductMetrics\<close> returns one row per product, in order, keeping
  the product's fields. Every row carries the same \<^verbatim>\<open>catalogAvgRevenuePerSqIn\<close>, the
  sum of all revenues divided by the sum of all areas (not a mean of the products'
  ratios); \<^verbatim>\<open>revenuePerSqIn\<close> is the product's revenue divided by its area, and
  \<^verbatim>\<open>spaceEfficiencyIndex\<close> is \<^verbatim>\<open>revenuePerSqIn\<close> divided by the catalog average,
  times 100. The sums, quotients and product are those of binary64, each rounded.
\<close>

theorem catalog_average_is_area_weighted:
  assumes i: "i < length productData"
  shows "length (calculateProductMetrics productData) = length productData \<and>
         ProductRecord.truncate (calculateProductMetrics productData ! i) = productData ! i \<and>
         catalogAvgRevenuePerSqIn (calculateProductMetrics productData ! i) =
           js_div (sumBy Product_Sales_Revenue productData)
                  (sumBy ProductRecord.Square_Inches productData) \<and>
         EnrichedProduct.revenuePerSqIn (calculateProductMetrics productData ! i) =
           js_div (Product_Sales_Revenue (productData ! i))
                  (ProductRecord.Square_Inches (productData ! i)) \<and>
         EnrichedProduct.spaceEfficiencyIndex (calculateProductMetrics productData ! i) =
           js_mul (js_div (EnrichedProduct.revenuePerSqIn (calculateProductMetrics productData ! i))
                          (catalogAvgRevenuePerSqIn (calculateProductMetrics productData ! i)))
                  (Finite 100)"
  using i by (simp add: length_product_metrics product_metrics_nth extend_selectors)

text \<open>
  Revenue 300 on 10 square inches and revenue 100 on 40: the catalog average is
  400 / 50 = 8, where the mean of the two ratios 30 and 2.5 is 16.25; the indices are
  375 and 31.25.
\<close>

theorem catalog_average_is_area_weighted_witness:
  "map (\<lambda>row. (catalogAvgRevenuePerSqIn row, EnrichedProduct.revenuePerSqIn row,
                EnrichedProduct.spaceEfficiencyIndex row))
     (calculateProductMetrics
        [\<lparr> ProductRecord.Product_Name = ''A'', Product_Sales_Revenue = Finite 300,
            Units_Sold = Finite 1, ProductRecord.Square_Inches = Finite 10,
            Page_Number = Finite 1, Catalog_Price = Finite 1 \<rparr>,
         \<lparr> ProductRecord.Product_Name = ''B'', Product_Sales_Revenue = Finite 100,
            Units_Sold = Finite 1, ProductRecord.Square_Inches = Finite 40,
            Page_Number = Finite 1, Catalog_Price = Finite 1 \<rparr>]) =
   [(Finite 8, Finite 30, Finite 375), (Finite 8, Finite (5 / 2), Finite (125 / 4))] \<and>
   meanBy EnrichedProduct.revenuePerSqIn
     (calculateProductMetrics
        [\<lparr> ProductRecord.Product_Name = ''A'', Product_Sales_Revenue = Finite 300,
            Units_Sold = Finite 1, ProductRecord.Square_Inches = Finite 10,
            Page_Number = Finite 1, Catalog_Price = Finite 1 \<rparr>,
         \<lparr> ProductRecord.Product_Name = ''B'', Product_Sales_Revenue = Finite 100,
            Units_Sold = Finite 1, ProductRecord.Square_Inches = Finite 40,
            Page_Number = Finite 1, Catalog_Price = Finite 1 \<rparr>]) = Finite (65 / 4)"
proof -
  let ?A = "\<lparr> ProductRecord.Product_Name = ''A'', Product_Sales_Revenue = Finite 300,
            Units_Sold = Finite 1, ProductRecord.Square_Inches = Finite 10,
            Page_Number = Finite 1, Catalog_Price = Finite 1 \<rparr>"
  let ?B = "\<lparr> ProductRecord.Product_Name = ''B'', Product_Sales_Revenue = Finite 100,
            Units_Sold = Finite 1, ProductRecord.Square_Inches = Finite 40,
            Page_Number = Finite 1, Catalog_Price = Finite 1 \<rparr>"
  let ?rows = "calculateProductMetrics [?A, ?B]"
  have sums: "sumBy Product_Sales_Revenue [?A, ?B] = Finite 400"
             "sumBy ProductRecord.Square_Inches [?A, ?B] = Finite 50"
    by code_simp+
  have quotients: "js_div (Finite 400) (Finite 50) = Finite 8"
                  "js_div (Finite 300) (Finite 10) = Finite 30"
                  "js_div (Finite 100) (Finite 40) = Finite (5 / 2)"
                  "js_mul (js_div (Finite 30) (Finite 8)) (Finite 100) = Finite 375"
                  "js_mul (js_div (Finite (5 / 2)) (Finite 8)) (Finite 100) = Finite (125 / 4)"
                  "js_div (js_add (Finite 30) (Finite (5 / 2))) (Finite 2) = Finite (65 / 4)"
    by code_simp+
  have first: "0 < length [?A, ?B]" and second: "Suc 0 < length [?A, ?B]" by simp_all
  from catalog_average_is_area_weighted [OF first]
  have row0: "catalogAvgRevenuePerSqIn (?rows ! 0) = Finite 8"
             "EnrichedProduct.revenuePerSqIn (?rows ! 0) = Finite 30"
             "EnrichedProduct.spaceEfficiencyIndex (?rows ! 0) = Finite 375"
    by (simp_all add: sums quotients)
  from catalog_average_is_area_weighted [OF second]
  have row1: "catalogAvgRevenuePerSqIn (?rows ! Suc 0) = Finite 8"
             "EnrichedProduct.revenuePerSqIn (?rows ! Suc 0) = Finite (5 / 2)"
             "EnrichedProduct.spaceEfficiencyIndex (?rows ! Suc 0) = Finite (125 / 4)"
    by (simp_all add: sums quotients)
  from catalog_average_is_area_weighted [OF first]
  have "length ?rows = 2" by simp
  then have rows: "?rows = [?rows ! 0, ?rows ! Suc 0]"
    by (cases ?rows; cases "tl ?rows") auto
  have "map (\<lambda>row. (catalogAvgRevenuePerSqIn row, EnrichedProduct.revenuePerSqIn row,
                EnrichedProduct.spaceEfficiencyIndex row)) ?rows =
        [(Finite 8, Finite 30, Finite 375), (Finite 8, Finite (5 / 2), Finite (125 / 4))]"
    by (subst rows) (simp add: row0 row1)
  moreover have "meanBy EnrichedProduct.revenuePerSqIn ?rows = Finite (65 / 4)"
    by (subst rows) (simp add: meanBy_def sumBy_def row0 row1 quotients)
  ultimately show ?thesis by simp
qed

text \<open>
  Claim C8. A product that is the only one with its page number (as a property key, so
  that \<^verbatim>\<open>-0\<close> and \<^verbatim>\<open>0\<close> are one page) gets, from
  \<^verbatim>\<open>calculatePageMetrics\<close> after \<^verbatim>\<open>calculateProductMetrics\<close>, a page average equal to
  its own \<^verbatim>\<open>revenuePerSqIn\<close>; its \<^verbatim>\<open>pagePositionRatio\<close> is exactly 1 when that value
  is finite and not 0, and \<^verbatim>\<open>NaN\<close> otherwise. The call never throws.
\<close>

theorem page_position_ratio_alone:
  assumes "i < length productData"
      and "\<forall>j < length productData. j \<noteq> i \<longrightarrow>
             property_key (Page_Number (productData ! j)) \<noteq>
             property_key (Page_Number (productData ! i))"
  shows "\<exists>rows. calculatePageMetrics (calculateProductMetrics productData) = Inr rows \<and>
           length rows = length productData \<and>
           EnrichedProduct.revenuePerSqIn (rows ! i) =
             js_div (Product_Sales_Revenue (productData ! i))
                    (ProductRecord.Square_Inches (productData ! i)) \<and>
           pageAvgRevenuePerSqIn (rows ! i) = EnrichedProduct.revenuePerSqIn (rows ! i) \<and>
           pagePositionRatio (rows ! i) =
             (if is_finite (EnrichedProduct.revenuePerSqIn (rows ! i)) \<and>
                 \<not> is_zero (EnrichedProduct.revenuePerSqIn (rows ! i))
              then Finite 1 else NaN)"
proof -
  let ?metrics = "calculateProductMetrics productData"
  let ?rows = "map (\<lambda>p. p \<lparr> pageAvgRevenuePerSqIn := page_average ?metrics (property_key (Page_Number p)),
                       pagePositionRatio :=
                         js_div (EnrichedProduct.revenuePerSqIn p)
                                (page_average ?metrics (property_key (Page_Number p))) \<rparr>) ?metrics"
  have rows: "calculatePageMetrics ?metrics = Inr ?rows" by (rule page_metrics_rows)
  have avg: "page_average ?metrics (property_key (Page_Number (productData ! i))) =
      js_div (Product_Sales_Revenue (productData ! i)) (ProductRecord.Square_Inches (productData ! i))"
    using assms by (rule page_average_alone)
  have "length ?rows = length productData" by (simp add: length_product_metrics)
  moreover have "EnrichedProduct.revenuePerSqIn (?rows ! i) =
      js_div (Product_Sales_Revenue (productData ! i)) (ProductRecord.Square_Inches (productData ! i))"
    using assms(1) by (simp add: length_product_metrics product_metrics_nth extend_selectors)
  moreover have "pageAvgRevenuePerSqIn (?rows ! i) = EnrichedProduct.revenuePerSqIn (?rows ! i)"
    using assms(1) by (simp add: length_product_metrics product_metrics_nth extend_selectors avg)
  moreover have "pagePositionRatio (?rows ! i) =
             (if is_finite (EnrichedProduct.revenuePerSqIn (?rows ! i)) \<and>
                 \<not> is_zero (EnrichedProduct.revenuePerSqIn (?rows ! i))
              then Finite 1 else NaN)"
    using assms(1)
    by (simp add: length_product_metrics product_metrics_nth extend_selectors avg js_div_self)
  ultimately show ?thesis using rows by blast
qed

theorem page_position_ratio_alone_witness:
  "\<exists>rows. calculatePageMetrics (calculateProductMetrics
      [\<lparr> ProductRecord.Product_Name = ''A'', Product_Sales_Revenue = Finite 1000,
          Units_Sold = Finite 4, ProductRecord.Square_Inches = Finite 10,
          Page_Number = Finite 1, Catalog_Price = Finite 250 \<rparr>,
       \<lparr> ProductRecord.Product_Name = ''B'', Product_Sales_Revenue = Finite 500,
          Units_Sold = Finite 5, ProductRecord.Square_Inches = Finite 10,
          Page_Number = Finite 2, Catalog_Price = Finite 100 \<rparr>]) = Inr rows \<and>
     pageAvgRevenuePerSqIn (rows ! 0) = Finite 100 \<and>
     pagePositionRatio (rows ! 0) = Finite 1"
proof -
  let ?A = "\<lparr> ProductRecord.Product_Name = ''A'', Product_Sales_Revenue = Finite 1000,
          Units_Sold = Finite 4, ProductRecord.Square_Inches = Finite 10,
          Page_Number = Finite 1, Catalog_Price = Finite 250 \<rparr>"
  let ?B = "\<lparr> ProductRecord.Product_Name = ''B'', Product_Sales_Revenue = Finite 500,
          Units_Sold = Finite 5, ProductRecord.Square_Inches = Finite 10,
          Page_Number = Finite 2, Catalog_Price = Finite 100 \<rparr>"
  have h1: "0 < length [?A, ?B]" by simp
  have h2: "\<forall>j < length [?A, ?B]. j \<noteq> 0 \<longrightarrow>
             property_key (Page_Number ([?A, ?B] ! j)) \<noteq>
             property_key (Page_Number ([?A, ?B] ! 0))"
    by (simp add: less_Suc_eq)
  have quotient: "js_div (Finite 1000) (Finite 10) = Finite 100" by code_simp
  from page_position_ratio_alone [OF h1 h2] show ?thesis by (auto simp: quotient)
qed

text \<open>
  A product alone on its page with revenue 0: its ratio is \<^verbatim>\<open>0 / 0\<close>, not 1.
\<close>

theorem page_position_ratio_alone_counterexample:
  "calculatePageMetrics (calculateProductMetrics
      [\<lparr> ProductRecord.Product_Name = ''A'', Product_Sales_Revenue = Finite 0,
          Units_Sold = Finite 0, ProductRecord.Square_Inches = Finite 10,
          Page_Number = Finite 1, Catalog_Price = Finite 5 \<rparr>]) =
   Inr [\<lparr> ProductRecord.Product_Name = ''A'', Product_Sales_Revenue = Finite 0,
          Units_Sold = Finite 0, ProductRecord.Square_Inches = Finite 10,
          Page_Number = Finite 1, Catalog_Price = Finite 5,
          EnrichedProduct.revenuePerSqIn = Finite 0,
          EnrichedProduct.spaceEfficiencyIndex = NaN,
          catalogAvgRevenuePerSqIn = Finite 0,
          pageAvgRevenuePerSqIn = Finite 0,
          pagePositionRatio = NaN \<rparr>]"
  by code_simp


section \<open>Degenerate inputs\<close>

text \<open>
  Claim C1. The pipeline does not fail on an empty product set or on a total area of 0:
  whenever the parser returns rows, \<^verbatim>\<open>processFullAnalysis\<close> returns a success result
  with no error message and one product row per product. For an empty product set the
  segment, affinity and profile tables are empty; for a total area of 0 every product
  row carries a \<^verbatim>\<open>catalogAvgRevenuePerSqIn\<close> that is not finite.
\<close>

theorem degenerate_catalog_still_succeeds:
  assumes "parseProducts productFile = Inr productData"
      and "parseCustomers customerFile = Inr customerData"
  shows "\<exists>results.
           processFullAnalysis parseProducts parseCustomers productFile customerFile =
             \<lparr> success = True, data = Some results, error = None \<rparr> \<and>
           length (productMetrics results) = length productData \<and>
           (productData = [] \<longrightarrow>
              segmentAnalysis results = [] \<and> affinityAnalysis results = [] \<and>
              customerProfiles results = []) \<and>
           (is_zero (sumBy ProductRecord.Square_Inches productData) \<longrightarrow>
              list_all (\<lambda>row. \<not> is_finite (catalogAvgRevenuePerSqIn row))
                (productMetrics results))"
proof -
  obtain results where results: "analyse productData customerData = Inr results"
    and rows: "productMetrics results =
      map (\<lambda>p. p \<lparr> pageAvgRevenuePerSqIn :=
                     page_average (calculateProductMetrics productData)
                       (property_key (Page_Number p)),
                   pagePositionRatio :=
                     js_div (EnrichedProduct.revenuePerSqIn p)
                       (page_average (calculateProductMetrics productData)
                       (property_key (Page_Number p))) \<rparr>)
        (calculateProductMetrics productData)"
    and segments: "segmentAnalysis results =
      generateSegmentAnalysis customerData (productMetrics results)"
    and affinities: "affinityAnalysis results =
      generateAffinityAnalysis customerData (productMetrics results)"
    and profiles: "generateCustomerProfiles customerData (productMetrics results) =
      Inr (customerProfiles results)"
    using analyse_total [of productData customerData] by blast
  have run: "processFullAnalysis parseProducts parseCustomers productFile customerFile =
      \<lparr> success = True, data = Some results, error = None \<rparr>"
    using assms results by (simp add: processFullAnalysis_def loadDatasets_def)
  have len: "length (productMetrics results) = length productData"
    by (simp add: rows length_product_metrics)
  have empty: "segmentAnalysis results = [] \<and> affinityAnalysis results = [] \<and>
      customerProfiles results = []" if "productData = []"
  proof -
    from that len have "productMetrics results = []" by simp
    with segments affinities profiles show ?thesis
      by (simp add: segments_without_products affinities_without_products
          profiles_without_products)
  qed
  have zero: "list_all (\<lambda>row. \<not> is_finite (catalogAvgRevenuePerSqIn row)) (productMetrics results)"
    if "is_zero (sumBy ProductRecord.Square_Inches productData)"
    using that by (simp add: rows list_all_iff catalog_average_of_row js_div_zero_not_finite)
  from run len empty zero show ?thesis by blast
qed

theorem degenerate_catalog_still_succeeds_witness:
  "\<exists>results.
     processFullAnalysis (parsed_as [sticker]) (parsed_as []) ''products'' ''customers'' =
       \<lparr> success = True, data = Some results, error = None \<rparr> \<and>
     length (productMetrics results) = 1 \<and>
     list_all (\<lambda>row. \<not> is_finite (catalogAvgRevenuePerSqIn row)) (productMetrics results)"
proof -
  have h1: "parsed_as [sticker] ''products'' = Inr [sticker]" by (simp add: parsed_as_def)
  have h2: "parsed_as [] ''customers'' = Inr ([] :: CustomerRecord list)"
    by (simp add: parsed_as_def)
  have zero: "is_zero (sumBy ProductRecord.Square_Inches [sticker])"
    by (simp add: sumBy_def sticker_def)
  from degenerate_catalog_still_succeeds
         [where parseProducts = "parsed_as [sticker]" and productFile = "''products''"
            and parseCustomers = "parsed_as []" and customerFile = "''customers''", OF h1 h2]
       zero
  show ?thesis by auto
qed

text \<open>
  The empty product set: a success result with empty tables, no failure result.
\<close>

theorem empty_catalog_counterexample:
  "processFullAnalysis (parsed_as []) (parsed_as [purchase ''ann@example.com'' ''Lamp'' 1 50])
     ''products'' ''customers'' =
   \<lparr> success = True,
     data = Some \<lparr> productMetrics = [], segmentAnalysis = [], affinityAnalysis = [],
                   customerProfiles = [],
                   insightSummaries =
                     \<lparr> segmentInsights =
                         \<lparr> topSegment = None, bottomSegment = None,
                           highestEfficiencySegment = None, totalSegments = 0 \<rparr>,
                       affinityInsights =
                         \<lparr> topAffinity = None, totalAffinityPairs = 0,
                           highEfficiencyPairs = 0 \<rparr>,
                       customerInsights =
                         \<lparr> topCustomer = None, avgCustomerSEI = NaN,
                           multiProductCustomers = 0, totalCustomers = 0 \<rparr> \<rparr> \<rparr>,
     error = None \<rparr>"
  by (simp add: processFullAnalysis_def loadDatasets_def parsed_as_def analyse_def
      calculateProductMetrics_def page_metrics_rows segments_without_products
      affinities_without_products profiles_without_products
      generateInsightSummaries_def js_index_def maxBy_def meanBy_def)




section \<open>Candidate pairs\<close>

text \<open>
  Claim C7. Among the candidate pairs that \<^verbatim>\<open>generateAffinityAnalysis\<close> collects, a
  customer with \<open>k\<close> purchase rows has exactly \<open>k\<close> choose 2: none for a customer with a
  single row (or with no row), so that only customers with two or more rows generate
  pairs.
\<close>

theorem candidate_pairs_per_customer:
  "length (filter (\<lambda>c. customer c = email) (collect_coPurchases customerData)) =
   length (filter (\<lambda>r. Customer_Email r = email) customerData) choose 2"
proof -
  let ?h = "\<lambda>(email, purchases).
      if length purchases > 1 then customer_pairs email purchases else []"
  have lengths: "length (?h (e, g)) = length g choose 2" for e g
  proof (cases "length g > 1")
    case True
    then show ?thesis by (simp add: length_customer_pairs)
  next
    case False
    then have "length g = 0 \<or> length g = 1" by arith
    then show ?thesis by auto
  qed
  have tags: "customer c = fst kv" if "c \<in> set (?h kv)" for kv c
    using that by (cases kv) (auto split: if_splits dest: customer_of_pairs)
  have "length (filter (\<lambda>c. customer c = email)
            (concat (map ?h (groupBy Customer_Email customerData)))) =
        (case map_of (groupBy Customer_Email customerData) email of
           None \<Rightarrow> 0 | Some v \<Rightarrow> length (?h (email, v)))"
    by (rule length_filter_concat_by_key) (simp_all add: distinct_keys_groupBy tags)
  also have "\<dots> = length (filter (\<lambda>r. Customer_Email r = email) customerData) choose 2"
  proof (cases "email \<in> Customer_Email ` set customerData")
    case True
    then show ?thesis using lengths by (simp add: map_of_groupBy)
  next
    case False
    then have "filter (\<lambda>r. Customer_Email r = email) customerData = []"
      by (auto simp: filter_empty_conv)
    with False show ?thesis by (simp add: map_of_groupBy)
  qed
  finally show ?thesis by (simp add: collect_coPurchases_def)
qed

theorem candidate_pairs_per_customer_witness:
  "length (filter (\<lambda>c. customer c = ''ann@example.com'')
     (collect_coPurchases
        [purchase ''ann@example.com'' ''Lamp'' 1 50, purchase ''bob@example.com'' ''Lamp'' 1 50,
         purchase ''ann@example.com'' ''Rug'' 1 80, purchase ''ann@example.com'' ''Vase'' 2 30])) = 3 \<and>
   length (filter (\<lambda>c. customer c = ''bob@example.com'')
     (collect_coPurchases
        [purchase ''ann@example.com'' ''Lamp'' 1 50, purchase ''bob@example.com'' ''Lamp'' 1 50,
         purchase ''ann@example.com'' ''Rug'' 1 80, purchase ''ann@example.com'' ''Vase'' 2 30])) = 0"
proof -
  let ?data = "[purchase ''ann@example.com'' ''Lamp'' 1 50, purchase ''bob@example.com'' ''Lamp'' 1 50,
         purchase ''ann@example.com'' ''Rug'' 1 80, purchase ''ann@example.com'' ''Vase'' 2 30]"
  have three: "Suc (Suc (Suc 0)) choose 2 = 3" by (simp add: choose_two)
  from candidate_pairs_per_customer [of "''ann@example.com''" ?data]
       candidate_pairs_per_customer [of "''bob@example.com''" ?data]
  show ?thesis by (simp add: purchase_def three)
qed

section \<open>Affinity rows\<close>

text \<open>
  Claim C3. \<^verbatim>\<open>generateAffinityAnalysis\<close> compares no names. When no customer has two
  rows with the same product name and no product name contains the character \<^verbatim>\<open>+\<close>,
  every output row has an \<^verbatim>\<open>anchorProduct\<close> different from its
  \<^verbatim>\<open>boughtWithProduct\<close>.
\<close>

theorem no_self_pair_for_distinct_purchases:
  assumes "list_all (\<lambda>r. plus_free (CustomerRecord.Product_Name r)) customerData"
      and "distinct (map (\<lambda>r. (Customer_Email r, CustomerRecord.Product_Name r)) customerData)"
      and "row \<in> set (generateAffinityAnalysis customerData metrics)"
  shows "anchorProduct row \<noteq> boughtWithProduct row"
proof -
  from assms(3) obtain k g where entry: "(k, g) \<in> set (groupBy pair_key (collect_coPurchases customerData))"
      and row: "affinity_row metrics (k, g) = Some row"
    by (auto simp: affinity_rows_member)
  from entry obtain c where c: "c \<in> set (collect_coPurchases customerData)" and k: "k = pair_key c"
    by (auto simp: groupBy_member)
  have free: "plus_free (product1 c)" "plus_free (product2 c)"
    using collect_plus_free [OF assms(1) c] by simp_all
  have "product1 c \<noteq> product2 c"
    using distinct_names_of_pairs [OF distinct_names_per_customer [OF assms(2)] collect_member [OF c]] .
  moreover have "anchorProduct row = min (product1 c) (product2 c)"
      "boughtWithProduct row = max (product1 c) (product2 c)"
    using affinity_row_Some [OF free row [unfolded k]] by simp_all
  ultimately show ?thesis by (auto simp: min_def max_def split: if_splits)
qed

theorem no_self_pair_for_distinct_purchases_witness:
  "list_all (\<lambda>r. plus_free (CustomerRecord.Product_Name r))
     [purchase ''ann@example.com'' ''Rug'' 1 80, purchase ''ann@example.com'' ''Lamp'' 1 50] \<and>
   distinct (map (\<lambda>r. (Customer_Email r, CustomerRecord.Product_Name r))
     [purchase ''ann@example.com'' ''Rug'' 1 80, purchase ''ann@example.com'' ''Lamp'' 1 50]) \<and>
   map pair_names (generateAffinityAnalysis
     [purchase ''ann@example.com'' ''Rug'' 1 80, purchase ''ann@example.com'' ''Lamp'' 1 50]
     [catalog_entry ''Lamp'' 120, catalog_entry ''Rug'' 80]) = [(''Lamp'', ''Rug'')] \<and>
   ''Lamp'' \<noteq> ''Rug''"
proof -
  let ?data = "[purchase ''ann@example.com'' ''Rug'' 1 80, purchase ''ann@example.com'' ''Lamp'' 1 50]"
  let ?row = "\<lparr> anchorProduct = ''Lamp'', anchorSEI = Finite 120, boughtWithProduct = ''Rug'',
       boughtWithSEI = Finite 80, coPurchases = 1, combinedEfficiency = Finite 100 \<rparr>"
  have h1: "list_all (\<lambda>r. plus_free (CustomerRecord.Product_Name r)) ?data"
    by (simp add: purchase_def plus_free_def)
  have h2: "distinct (map (\<lambda>r. (Customer_Email r, CustomerRecord.Product_Name r)) ?data)"
    by (simp add: purchase_def)
  have h3: "?row \<in> set (generateAffinityAnalysis ?data
      [catalog_entry ''Lamp'' 120, catalog_entry ''Rug'' 80])"
    by (simp add: affinity_example)
  from no_self_pair_for_distinct_purchases [OF h1 h2 h3] h1 h2 show ?thesis
    by (simp add: affinity_example pair_names_def)
qed

text \<open>
  A customer with two rows of the same product: the output pairs the product with itself.
\<close>

theorem self_pair_counterexample:
  "generateAffinityAnalysis
     [purchase ''ann@example.com'' ''Lamp'' 1 50, purchase ''ann@example.com'' ''Lamp'' 2 100]
     [enriched_lamp] =
   [\<lparr> anchorProduct = ''Lamp'', anchorSEI = Finite 100, boughtWithProduct = ''Lamp'',
       boughtWithSEI = Finite 100, coPurchases = 1, combinedEfficiency = Finite 100 \<rparr>]"
  by code_simp

text \<open>
  Claim C6. The key of a candidate pair is the two names, sorted and joined by the
  separator, so both orders of two names have the same key; the names of an output row
  are read back by splitting the key at the separator and keeping the first two parts.
  With product names that contain the separator this does not give the names back: the
  pairs (Soap, Towel + Mat) of one customer and (Towel + Soap, Vase) of another are
  reported as the rows (Soap, Towel) and (Towel, Soap), both orders of one pair.
\<close>

theorem separator_in_name_yields_both_orders:
  "map pair_names (generateAffinityAnalysis
     [purchase ''ann@example.com'' ''Soap'' 1 4, purchase ''ann@example.com'' ''Towel + Mat'' 1 30,
      purchase ''bob@example.com'' ''Towel + Soap'' 1 20, purchase ''bob@example.com'' ''Vase'' 1 25]
     [catalog_entry ''Soap'' 120, catalog_entry ''Towel'' 80]) =
   [(''Soap'', ''Towel''), (''Towel'', ''Soap'')]"
  by code_simp

section \<open>Customer rows without a product\<close>




section \<open>Customer profiles\<close>




end
